theory Spec2Isabelle
  imports Complex_Main
begin

section \<open>Python values\<close>

text \<open>
  The values that occur in the configuration dictionary and in the money fields of an
  order. \<open>PDecimal q\<close> is a \<open>decimal.Decimal\<close> of exact value \<open>q\<close> (the context
  precision of 28 significant digits is taken not to be reached), \<open>PFloat q\<close> is a finite
  binary float of exact value \<open>q\<close>. A \<open>bool\<close> is an \<open>int\<close> in Python arithmetic and
  comparisons.
\<close>

datatype pyval =
    PNone
  | PBool bool
  | PInt int
  | PFloat rat
  | PDecimal rat
  | PStr string

text \<open>
  The exceptions the modelled code can raise. \<open>KeyboardInterrupt\<close> and \<open>SystemExit\<close>
  derive from \<open>BaseException\<close> only; a clause \<open>except Exception\<close> does not catch them.
\<close>

datatype py_exc =
    TypeError
  | KeyError string
  | AttributeError
  | DoesNotExist
  | Http404
  | OtherException string
  | KeyboardInterrupt
  | SystemExit

fun is_Exception :: "py_exc \<Rightarrow> bool" where
  "is_Exception KeyboardInterrupt = False"
| "is_Exception SystemExit = False"
| "is_Exception _ = True"

fun num_value :: "pyval \<Rightarrow> rat option" where
  "num_value (PBool b) = Some (if b then 1 else 0)"
| "num_value (PInt i) = Some (of_int i)"
| "num_value (PFloat f) = Some f"
| "num_value (PDecimal d) = Some d"
| "num_value _ = None"

fun as_int :: "pyval \<Rightarrow> pyval" where
  "as_int (PBool b) = PInt (if b then 1 else 0)"
| "as_int v = v"

text \<open>
  \<open>a * b\<close>. The parameter \<open>fl\<close> rounds an exact product or sum to the nearest binary
  float. \<open>Decimal\<close> and \<open>float\<close> do not mix in arithmetic: Python raises \<open>TypeError\<close>.
\<close>

fun mul_core :: "(rat \<Rightarrow> rat) \<Rightarrow> pyval \<Rightarrow> pyval \<Rightarrow> py_exc + pyval" where
  "mul_core fl (PInt i) (PInt j) = Inr (PInt (i * j))"
| "mul_core fl (PInt i) (PFloat g) = Inr (PFloat (fl (of_int i * g)))"
| "mul_core fl (PFloat f) (PInt j) = Inr (PFloat (fl (f * of_int j)))"
| "mul_core fl (PFloat f) (PFloat g) = Inr (PFloat (fl (f * g)))"
| "mul_core fl (PInt i) (PDecimal e) = Inr (PDecimal (of_int i * e))"
| "mul_core fl (PDecimal d) (PInt j) = Inr (PDecimal (d * of_int j))"
| "mul_core fl (PDecimal d) (PDecimal e) = Inr (PDecimal (d * e))"
| "mul_core fl (PInt i) (PStr s) = Inr (PStr (concat (replicate (nat i) s)))"
| "mul_core fl (PStr s) (PInt j) = Inr (PStr (concat (replicate (nat j) s)))"
| "mul_core fl _ _ = Inl TypeError"

definition py_mul :: "(rat \<Rightarrow> rat) \<Rightarrow> pyval \<Rightarrow> pyval \<Rightarrow> py_exc + pyval" where
  "py_mul fl a b = mul_core fl (as_int a) (as_int b)"

fun add_core :: "(rat \<Rightarrow> rat) \<Rightarrow> pyval \<Rightarrow> pyval \<Rightarrow> py_exc + pyval" where
  "add_core fl (PInt i) (PInt j) = Inr (PInt (i + j))"
| "add_core fl (PInt i) (PFloat g) = Inr (PFloat (fl (of_int i + g)))"
| "add_core fl (PFloat f) (PInt j) = Inr (PFloat (fl (f + of_int j)))"
| "add_core fl (PFloat f) (PFloat g) = Inr (PFloat (fl (f + g)))"
| "add_core fl (PInt i) (PDecimal e) = Inr (PDecimal (of_int i + e))"
| "add_core fl (PDecimal d) (PInt j) = Inr (PDecimal (d + of_int j))"
| "add_core fl (PDecimal d) (PDecimal e) = Inr (PDecimal (d + e))"
| "add_core fl (PStr s) (PStr t) = Inr (PStr (s @ t))"
| "add_core fl _ _ = Inl TypeError"

definition py_add :: "(rat \<Rightarrow> rat) \<Rightarrow> pyval \<Rightarrow> pyval \<Rightarrow> py_exc + pyval" where
  "py_add fl a b = add_core fl (as_int a) (as_int b)"

text \<open>
  The chained comparison \<open>0 <= v <= 1\<close>: exact on numbers of any kind, \<open>TypeError\<close> on
  a string or \<open>None\<close>.
\<close>

definition in_unit_interval :: "pyval \<Rightarrow> py_exc + bool" where
  "in_unit_interval v =
     (case num_value v of
        None \<Rightarrow> Inl TypeError
      | Some q \<Rightarrow> Inr (0 \<le> q \<and> q \<le> 1))"

section \<open>The configuration holder (patterns/singleton/config\_manager.py)\<close>

text \<open>
  \<open>RestaurantConfig\<close> keeps its single instance in the class attribute \<open>_instance\<close>
  and a flag \<open>_initialized\<close>; the instance's attribute \<open>_config\<close> refers to a dictionary
  object. Objects and dictionaries live in a store indexed by addresses, so that two
  references to one dictionary are told apart from two dictionaries with equal contents.
  \<open>console\<close> is what the methods print.
\<close>

type_synonym addr = nat
type_synonym pydict = "string \<rightharpoonup> pyval"

datatype console_msg =
    Creando_nueva_instancia
  | Reutilizando_instancia
  | Inicializando_configuracion
  | Configuracion_cargada
  | Error_al_cargar
  | Impuesto_actualizado pyval
  | Error_impuesto

record process =
  cls_instance :: "addr option"
  cls_initialized :: bool
  attr_config :: "addr \<rightharpoonup> addr"
  dicts :: "addr \<rightharpoonup> pydict"
  next_addr :: addr
  console :: "console_msg list"

text \<open>A process that has not touched the class yet.\<close>

definition process0 :: process where
  "process0 = \<lparr> cls_instance = None, cls_initialized = False, attr_config = Map.empty,
                dicts = Map.empty, next_addr = 0, console = [] \<rparr>"

text \<open>
  The optional file \<open>restaurant_config.json\<close>: absent, present but failing to open or
  parse, or a JSON object.
\<close>

datatype config_file = Absent | Unreadable | Contents pydict

text \<open>The floats that the literals \<open>0.16\<close> and \<open>0.15\<close> denote.\<close>

definition float_0_16 :: rat where
  "float_0_16 = 5764607523034235 / 36028797018963968"

definition float_0_15 :: rat where
  "float_0_15 = 5404319552844595 / 36028797018963968"

definition default_config :: pydict where
  "default_config =
     [''nombre_restaurante'' \<mapsto> PStr ''Restaurante Code & Taste'',
      ''direccion'' \<mapsto> PStr ''Av. Universidad #123, Chihuahua, Chih.'',
      ''telefono'' \<mapsto> PStr ''614-123-4567'',
      ''horario'' \<mapsto> PStr ''9:00 AM - 11:00 PM'',
      ''impuesto'' \<mapsto> PFloat float_0_16,
      ''propina_sugerida'' \<mapsto> PFloat float_0_15,
      ''moneda'' \<mapsto> PStr ''MXN'',
      ''mesas_activas'' \<mapsto> PBool True,
      ''tiempo_max_espera'' \<mapsto> PInt 45,
      ''email'' \<mapsto> PStr ''contacto@codeandtaste.com'',
      ''capacidad_maxima'' \<mapsto> PInt 80]"

text \<open>\<open>self._config\<close>: the address and the contents of the instance's dictionary.\<close>

definition self_config :: "addr \<Rightarrow> process \<Rightarrow> (addr \<times> pydict) option" where
  "self_config a p =
     (case attr_config p a of
        None \<Rightarrow> None
      | Some d \<Rightarrow> (case dicts p d of None \<Rightarrow> None | Some m \<Rightarrow> Some (d, m)))"

definition say :: "console_msg \<Rightarrow> process \<Rightarrow> process" where
  "say msg p = p\<lparr>console := console p @ [msg]\<rparr>"

definition RestaurantConfig_new :: "process \<Rightarrow> addr \<times> process" where
  "RestaurantConfig_new p =
     (case cls_instance p of
        None \<Rightarrow>
          (let a = next_addr p
           in (a, say Creando_nueva_instancia p\<lparr>cls_instance := Some a, next_addr := Suc a\<rparr>))
      | Some a \<Rightarrow> (a, say Reutilizando_instancia p))"

text \<open>
  \<open>_load_from_file\<close>: \<open>self._config.update(file_config)\<close> inside \<open>try\<close>; every
  exception is caught and reported on the console.
\<close>

definition load_from_file :: "config_file \<Rightarrow> addr \<Rightarrow> process \<Rightarrow> process" where
  "load_from_file file a p =
     (case file of
        Absent \<Rightarrow> p
      | Unreadable \<Rightarrow> say Error_al_cargar p
      | Contents file_config \<Rightarrow>
          (case self_config a p of
             None \<Rightarrow> say Error_al_cargar p
           | Some (d, m) \<Rightarrow>
               say Configuracion_cargada (p\<lparr>dicts := (dicts p)(d \<mapsto> m ++ file_config)\<rparr>)))"

definition RestaurantConfig_init :: "config_file \<Rightarrow> addr \<Rightarrow> process \<Rightarrow> process" where
  "RestaurantConfig_init file a p =
     (if \<not> cls_initialized p then
        (let d = next_addr p;
             p1 = say Inicializando_configuracion p;
             p2 = p1\<lparr>attr_config := (attr_config p1)(a \<mapsto> d),
                     dicts := (dicts p1)(d \<mapsto> default_config),
                     next_addr := Suc d\<rparr>;
             p3 = load_from_file file a p2
         in p3\<lparr>cls_initialized := True\<rparr>)
      else p)"

text \<open>The call \<open>RestaurantConfig()\<close>: \<open>__new__\<close>, then \<open>__init__\<close> on its result.\<close>

definition RestaurantConfig :: "config_file \<Rightarrow> process \<Rightarrow> addr \<times> process" where
  "RestaurantConfig file p =
     (let (a, p1) = RestaurantConfig_new p in (a, RestaurantConfig_init file a p1))"

definition get_impuesto :: "addr \<Rightarrow> process \<Rightarrow> py_exc + pyval" where
  "get_impuesto a p =
     (case self_config a p of
        None \<Rightarrow> Inl AttributeError
      | Some (d, m) \<Rightarrow>
          (case m ''impuesto'' of None \<Rightarrow> Inl (KeyError ''impuesto'') | Some v \<Rightarrow> Inr v))"

text \<open>
  \<open>set_impuesto\<close>: the comparison comes first; the dictionary is written only in the
  branch where it holds. The result is the exception raised, if any, and the process.
\<close>

definition set_impuesto :: "addr \<Rightarrow> pyval \<Rightarrow> process \<Rightarrow> py_exc option \<times> process" where
  "set_impuesto a impuesto p =
     (case in_unit_interval impuesto of
        Inl e \<Rightarrow> (Some e, p)
      | Inr True \<Rightarrow>
          (case self_config a p of
             None \<Rightarrow> (Some AttributeError, p)
           | Some (d, m) \<Rightarrow>
               (None, say (Impuesto_actualizado impuesto)
                        (p\<lparr>dicts := (dicts p)(d \<mapsto> m(''impuesto'' \<mapsto> impuesto))\<rparr>)))
      | Inr False \<Rightarrow> (None, say Error_impuesto p))"

text \<open>\<open>get_all_config\<close>: \<open>self._config.copy()\<close> allocates a new dictionary.\<close>

definition get_all_config :: "addr \<Rightarrow> process \<Rightarrow> (py_exc + addr) \<times> process" where
  "get_all_config a p =
     (case self_config a p of
        None \<Rightarrow> (Inl AttributeError, p)
      | Some (d, m) \<Rightarrow>
          (let r = next_addr p
           in (Inr r, p\<lparr>dicts := (dicts p)(r \<mapsto> m), next_addr := Suc r\<rparr>)))"

text \<open>What a caller can do to a dictionary it holds a reference to.\<close>

datatype dict_op =
    SetItem string pyval
  | DelItem string
  | Clear
  | Update pydict

fun apply_dict_op :: "dict_op \<Rightarrow> pydict \<Rightarrow> py_exc + pydict" where
  "apply_dict_op (SetItem k v) m = Inr (m(k \<mapsto> v))"
| "apply_dict_op (DelItem k) m =
     (if m k = None then Inl (KeyError k) else Inr (m(k := None)))"
| "apply_dict_op Clear m = Inr Map.empty"
| "apply_dict_op (Update m') m = Inr (m ++ m')"

definition mutate_dict :: "addr \<Rightarrow> dict_op \<Rightarrow> process \<Rightarrow> process" where
  "mutate_dict r op p =
     (case dicts p r of
        None \<Rightarrow> p
      | Some m \<Rightarrow>
          (case apply_dict_op op m of
             Inl e \<Rightarrow> p
           | Inr m' \<Rightarrow> p\<lparr>dicts := (dicts p)(r \<mapsto> m')\<rparr>))"

fun mutate_dict_all :: "addr \<Rightarrow> dict_op list \<Rightarrow> process \<Rightarrow> process" where
  "mutate_dict_all r [] p = p"
| "mutate_dict_all r (op # ops) p = mutate_dict_all r ops (mutate_dict r op p)"

text \<open>
  The states the class can be in once \<open>_initialized\<close> is set: the instance exists, its
  \<open>_config\<close> refers to an allocated dictionary, and the allocator is beyond both.
\<close>

definition config_ready :: "process \<Rightarrow> bool" where
  "config_ready p =
     (case cls_instance p of
        None \<Rightarrow> \<not> cls_initialized p
      | Some a \<Rightarrow>
          a < next_addr p \<and>
          (cls_initialized p \<longrightarrow>
             (case attr_config p a of
                None \<Rightarrow> False
              | Some d \<Rightarrow> d < next_addr p \<and> dicts p d \<noteq> None)))"

section \<open>Orders and line items (models.py)\<close>

text \<open>
  The money columns are \<open>DecimalField\<close>s: what is read from the database is a
  \<open>Decimal\<close>. The attributes of an instance in memory hold whatever the code assigned
  to them, so the three totals of an order are Python values. \<open>Model.save\<close> is taken
  as writing the attributes to the row as they are; the column's own quantisation to two
  decimal places is the framework's and is not modelled.
\<close>

record platillo =
  platillo_id :: nat
  nombre :: string
  precio :: rat
  disponible :: bool

record pedido =
  pedido_id :: nat
  mesa :: nat
  mesero :: "string option"
  estado :: string
  notas_especiales :: string
  subtotal :: pyval
  impuesto :: pyval
  total_pedido :: pyval

text \<open>
  A line item. \<open>item_id\<close> is \<open>None\<close> until the first save, and so are the two money
  attributes of an instance built by a form. \<open>platillo_cache\<close> is the related dish once
  the instance has fetched it: an instance read from the database starts without it.
\<close>

record item_pedido =
  item_id :: "nat option"
  item_pedido_id :: nat
  item_platillo_id :: nat
  platillo_cache :: "platillo option"
  cantidad :: int
  precio_unitario :: "rat option"
  subtotal_item :: "rat option"
  notas :: string

record database =
  platillos :: "platillo list"
  pedidos :: "pedido list"
  items :: "item_pedido list"
  next_item_id :: nat

definition ESTADOS :: "(string \<times> string) list" where
  "ESTADOS =
     [(''pendiente'', ''Pendiente''),
      (''en_preparacion'', ''En Preparaci'' @ [CHR 0xC3, CHR 0xB3] @ ''n''),
      (''listo'', ''Listo''),
      (''entregado'', ''Entregado''),
      (''cancelado'', ''Cancelado'')]"

definition get_platillo :: "database \<Rightarrow> nat \<Rightarrow> platillo option" where
  "get_platillo db k = find (\<lambda>r. platillo_id r = k) (platillos db)"

definition get_pedido :: "database \<Rightarrow> nat \<Rightarrow> pedido option" where
  "get_pedido db k = find (\<lambda>r. pedido_id r = k) (pedidos db)"

definition get_item :: "database \<Rightarrow> nat \<Rightarrow> item_pedido option" where
  "get_item db k = find (\<lambda>r. item_id r = Some k) (items db)"

text \<open>\<open>Model.save\<close> on a row that has a primary key: update it, or insert it.\<close>

definition Platillo_save :: "platillo \<Rightarrow> database \<Rightarrow> database" where
  "Platillo_save self db =
     (if get_platillo db (platillo_id self) = None
      then db\<lparr>platillos := platillos db @ [self]\<rparr>
      else db\<lparr>platillos :=
                map (\<lambda>r. if platillo_id r = platillo_id self then self else r) (platillos db)\<rparr>)"

definition Pedido_save :: "pedido \<Rightarrow> database \<Rightarrow> database" where
  "Pedido_save self db =
     (if get_pedido db (pedido_id self) = None
      then db\<lparr>pedidos := pedidos db @ [self]\<rparr>
      else db\<lparr>pedidos :=
                map (\<lambda>r. if pedido_id r = pedido_id self then self else r) (pedidos db)\<rparr>)"

text \<open>
  \<open>super().save()\<close> of a line item: a new primary key on the first save. The row
  does not keep the instance's cached dish.
\<close>

definition Model_save_item :: "item_pedido \<Rightarrow> database \<Rightarrow> item_pedido \<times> database" where
  "Model_save_item self db =
     (case item_id self of
        None \<Rightarrow>
          (let self' = self\<lparr>item_id := Some (next_item_id db)\<rparr>
           in (self', db\<lparr>items := items db @ [self'\<lparr>platillo_cache := None\<rparr>],
                         next_item_id := Suc (next_item_id db)\<rparr>))
      | Some k \<Rightarrow>
          (if get_item db k = None
           then (self, db\<lparr>items := items db @ [self\<lparr>platillo_cache := None\<rparr>]\<rparr>)
           else (self, db\<lparr>items :=
                   map (\<lambda>r. if item_id r = Some k then self\<lparr>platillo_cache := None\<rparr> else r)
                     (items db)\<rparr>)))"

text \<open>\<open>self.platillo\<close>: the cached dish, or the one the database has now.\<close>

definition item_platillo :: "item_pedido \<Rightarrow> database \<Rightarrow> platillo option" where
  "item_platillo self db =
     (case platillo_cache self of
        Some pl \<Rightarrow> Some pl
      | None \<Rightarrow> get_platillo db (item_platillo_id self))"

text \<open>
  \<open>ItemPedido.save\<close>: the unit price is assigned from the dish on every call, then the
  subtotal \<open>cantidad * precio_unitario\<close> (an \<open>int\<close> times a \<open>Decimal\<close>).
\<close>

definition ItemPedido_save ::
  "item_pedido \<Rightarrow> database \<Rightarrow> (py_exc + item_pedido) \<times> database" where
  "ItemPedido_save self db =
     (case item_platillo self db of
        None \<Rightarrow> (Inl DoesNotExist, db)
      | Some pl \<Rightarrow>
          (let self1 = self\<lparr>platillo_cache := Some pl, precio_unitario := Some (precio pl)\<rparr>;
               self2 = self1\<lparr>subtotal_item := Some (of_int (cantidad self1) * precio pl)\<rparr>;
               (self3, db') = Model_save_item self2 db
           in (Inr self3, db')))"

text \<open>\<open>self.items.all()\<close>: the rows of the order's line items.\<close>

definition items_all :: "pedido \<Rightarrow> database \<Rightarrow> item_pedido list" where
  "items_all self db = filter (\<lambda>r. item_pedido_id r = pedido_id self) (items db)"

definition item_subtotal :: "item_pedido \<Rightarrow> pyval" where
  "item_subtotal item = (case subtotal_item item of None \<Rightarrow> PNone | Some q \<Rightarrow> PDecimal q)"

text \<open>The builtin \<open>sum\<close>: it starts from the \<open>int\<close> 0 and adds from left to right.\<close>

fun py_sum_from :: "(rat \<Rightarrow> rat) \<Rightarrow> pyval \<Rightarrow> pyval list \<Rightarrow> py_exc + pyval" where
  "py_sum_from fl acc [] = Inr acc"
| "py_sum_from fl acc (v # vs) =
     (case py_add fl acc v of
        Inl e \<Rightarrow> Inl e
      | Inr acc' \<Rightarrow> py_sum_from fl acc' vs)"

definition py_sum :: "(rat \<Rightarrow> rat) \<Rightarrow> pyval list \<Rightarrow> py_exc + pyval" where
  "py_sum fl vs = py_sum_from fl (PInt 0) vs"

text \<open>
  \<open>Pedido.calcular_totales\<close>. Each assignment to an attribute happens before the next
  expression is evaluated, so an exception leaves the attributes assigned so far and does
  not reach \<open>self.save()\<close>. The result is the exception raised, if any, the instance, the
  process and the database.
\<close>

definition calcular_totales ::
  "(rat \<Rightarrow> rat) \<Rightarrow> config_file \<Rightarrow> pedido \<Rightarrow> process \<Rightarrow> database \<Rightarrow>
     py_exc option \<times> pedido \<times> process \<times> database" where
  "calcular_totales fl file self p db =
     (let (config, p1) = RestaurantConfig file p
      in case py_sum fl (map item_subtotal (items_all self db)) of
           Inl e \<Rightarrow> (Some e, self, p1, db)
         | Inr s \<Rightarrow>
             (let self1 = self\<lparr>subtotal := s\<rparr>
              in case get_impuesto config p1 of
                   Inl e \<Rightarrow> (Some e, self1, p1, db)
                 | Inr rate \<Rightarrow>
                     (case py_mul fl (subtotal self1) rate of
                        Inl e \<Rightarrow> (Some e, self1, p1, db)
                      | Inr t \<Rightarrow>
                          (let self2 = self1\<lparr>impuesto := t\<rparr>
                           in case py_add fl (subtotal self2) (impuesto self2) of
                                Inl e \<Rightarrow> (Some e, self2, p1, db)
                              | Inr tot \<Rightarrow>
                                  (let self3 = self2\<lparr>total_pedido := tot\<rparr>
                                   in (None, self3, p1, Pedido_save self3 db))))))"

section \<open>Quantity validation of the line-item form (forms.py)\<close>

text \<open>
  \<open>ItemPedidoForm.clean_cantidad\<close>. \<open>cleaned_data.get\<close> gives \<open>None\<close> for a missing
  key. The test is \<open>cantidad and (...)\<close>: \<open>None\<close> and the integer 0 are false in Python,
  and then the range is not looked at. \<open>Inl\<close> is the \<open>ValidationError\<close> with its message.
\<close>

definition clean_cantidad :: "int option \<Rightarrow> string + int option" where
  "clean_cantidad cantidad_opt =
     (case cantidad_opt of
        None \<Rightarrow> Inr None
      | Some c \<Rightarrow>
          (if c \<noteq> 0 \<and> (c < 1 \<or> c > 50)
           then Inl ''La cantidad debe estar entre 1 y 50''
           else Inr (Some c)))"

section \<open>The notification fan-out (patterns/observer/observers.py)\<close>

text \<open>
  A \<open>PedidoSubject\<close> holds an order and the list \<open>_observadores\<close>. Observers are
  compared with \<open>==\<close>, which is object identity for them: \<open>'o\<close> is the type of
  observer identities.
\<close>

record 'o pedido_subject =
  subject_pedido :: pedido
  observadores :: "'o list"

definition PedidoSubject :: "pedido \<Rightarrow> 'o pedido_subject" where
  "PedidoSubject ped = \<lparr> subject_pedido = ped, observadores = [] \<rparr>"

definition agregar_observador :: "'o \<Rightarrow> 'o pedido_subject \<Rightarrow> 'o pedido_subject" where
  "agregar_observador observador self =
     (if observador \<notin> set (observadores self)
      then self\<lparr>observadores := observadores self @ [observador]\<rparr>
      else self)"

text \<open>\<open>list.remove\<close> deletes the first occurrence.\<close>

definition quitar_observador :: "'o \<Rightarrow> 'o pedido_subject \<Rightarrow> 'o pedido_subject" where
  "quitar_observador observador self =
     (if observador \<in> set (observadores self)
      then self\<lparr>observadores := remove1 observador (observadores self)\<rparr>
      else self)"

text \<open>
  \<open>actualizar\<close> of an observer is a parameter: given the observer, the order, the event
  and the payload it changes the world \<open>'w\<close> (console, log) and returns, or raises. The
  state of a notification records each call made and each error logged.
\<close>

type_synonym ('o, 'd, 'w) actualizar =
  "'o \<Rightarrow> pedido \<Rightarrow> string \<Rightarrow> 'd \<Rightarrow> 'w \<Rightarrow> py_exc option \<times> 'w"

record ('o, 'd, 'w) notif_state =
  calls :: "('o \<times> pedido \<times> string \<times> 'd) list"
  logged_errors :: "('o \<times> py_exc) list"
  world :: 'w

text \<open>
  The loop of \<open>notificar_observadores\<close>: \<open>try: observador.actualizar(...)\<close> with
  \<open>except Exception\<close> logging the error. An exception outside \<open>Exception\<close> ends the
  loop and reaches the caller.
\<close>

fun notificar_cada ::
  "('o, 'd, 'w) actualizar \<Rightarrow> pedido \<Rightarrow> string \<Rightarrow> 'd \<Rightarrow> 'o list \<Rightarrow>
     ('o, 'd, 'w) notif_state \<Rightarrow> py_exc option \<times> ('o, 'd, 'w) notif_state" where
  "notificar_cada act ped evento datos [] st = (None, st)"
| "notificar_cada act ped evento datos (observador # rest) st =
     (let (r, w') = act observador ped evento datos (world st);
          st' = st\<lparr>calls := calls st @ [(observador, ped, evento, datos)], world := w'\<rparr>
      in case r of
           None \<Rightarrow> notificar_cada act ped evento datos rest st'
         | Some e \<Rightarrow>
             (if is_Exception e
              then notificar_cada act ped evento datos rest
                     (st'\<lparr>logged_errors := logged_errors st' @ [(observador, e)]\<rparr>)
              else (Some e, st')))"



definition notificar_observadores ::
  "('o, 'd, 'w) actualizar \<Rightarrow> 'o pedido_subject \<Rightarrow> string \<Rightarrow> 'd \<Rightarrow>
     ('o, 'd, 'w) notif_state \<Rightarrow> py_exc option \<times> ('o, 'd, 'w) notif_state" where
  "notificar_observadores act self evento datos st =
     notificar_cada act (subject_pedido self) evento datos (observadores self) st"

text \<open>The payload of a status change.\<close>

record datos_cambio_estado =
  estado_anterior :: string
  estado_nuevo :: string
  usuario :: string
  timestamp :: nat

text \<open>
  \<open>PedidoSubject.cambiar_estado\<close>: the new status is assigned and saved without any
  test, then the observers are notified. \<open>now\<close> is the clock.
\<close>

definition cambiar_estado ::
  "('o, datos_cambio_estado, 'w) actualizar \<Rightarrow> nat \<Rightarrow> 'o pedido_subject \<Rightarrow> string \<Rightarrow>
     string option \<Rightarrow> database \<Rightarrow> ('o, datos_cambio_estado, 'w) notif_state \<Rightarrow>
     py_exc option \<times> 'o pedido_subject \<times> database \<times> ('o, datos_cambio_estado, 'w) notif_state" where
  "cambiar_estado act now self nuevo_estado username db st =
     (let anterior = estado (subject_pedido self);
          self' = self\<lparr>subject_pedido := (subject_pedido self)\<lparr>estado := nuevo_estado\<rparr>\<rparr>;
          db' = Pedido_save (subject_pedido self') db;
          datos = \<lparr> estado_anterior = anterior, estado_nuevo = nuevo_estado,
                    usuario = (case username of Some u \<Rightarrow> u | None \<Rightarrow> ''Sistema''),
                    timestamp = now \<rparr>;
          (r, st') = notificar_observadores act self' ''cambio_estado'' datos st
      in (r, self', db', st'))"

section \<open>The status view (views.py)\<close>

text \<open>
  \<open>cambiar_estado_pedido\<close>, the function under its access decorators. The three
  observers it creates are new objects, hence distinct.
\<close>

datatype observer = CocinaObserver | MeseroObserver | AdministradorObserver

record request =
  req_method :: string
  req_POST :: "string \<rightharpoonup> string"
  req_user :: string

datatype flash = Estado_actualizado string | Estado_invalido

datatype response = Redirect_detalle_pedido nat

record 'w view_state =
  vs_db :: database
  vs_notif :: "(observer, datos_cambio_estado, 'w) notif_state"
  vs_messages :: "flash list"

definition cambiar_estado_pedido ::
  "(observer, datos_cambio_estado, 'w) actualizar \<Rightarrow> nat \<Rightarrow> request \<Rightarrow> nat \<Rightarrow>
     'w view_state \<Rightarrow> (py_exc + response) \<times> 'w view_state" where
  "cambiar_estado_pedido act now req pk vs =
     (case get_pedido (vs_db vs) pk of
        None \<Rightarrow> (Inl Http404, vs)
      | Some ped \<Rightarrow>
          (if req_method req = ''POST'' then
             (case req_POST req ''estado'' of
                None \<Rightarrow>
                  (Inr (Redirect_detalle_pedido pk),
                   vs\<lparr>vs_messages := vs_messages vs @ [Estado_invalido]\<rparr>)
              | Some nuevo_estado \<Rightarrow>
                  (case map_of ESTADOS nuevo_estado of
                     None \<Rightarrow>
                       (Inr (Redirect_detalle_pedido pk),
                        vs\<lparr>vs_messages := vs_messages vs @ [Estado_invalido]\<rparr>)
                   | Some label \<Rightarrow>
                       (let s0 = PedidoSubject ped;
                            s1 = agregar_observador CocinaObserver s0;
                            s2 = agregar_observador MeseroObserver s1;
                            s3 = agregar_observador AdministradorObserver s2;
                            (r, s4, db', st') =
                              cambiar_estado act now s3 nuevo_estado (Some (req_user req))
                                (vs_db vs) (vs_notif vs);
                            vs' = vs\<lparr>vs_db := db', vs_notif := st'\<rparr>
                        in case r of
                             Some e \<Rightarrow> (Inl e, vs')
                           | None \<Rightarrow>
                               (Inr (Redirect_detalle_pedido pk),
                                vs'\<lparr>vs_messages :=
                                      vs_messages vs' @ [Estado_actualizado label]\<rparr>))))
           else (Inr (Redirect_detalle_pedido pk), vs)))"

section \<open>Properties of the configuration holder\<close>

lemma self_config_say: "self_config a (say msg p) = self_config a p"
  by (simp add: self_config_def say_def cong: option.case_cong)

lemma get_impuesto_say: "get_impuesto a (say msg p) = get_impuesto a p"
  by (simp add: get_impuesto_def self_config_say)

lemma config_ready_say: "config_ready (say msg p) = config_ready p"
  by (simp add: config_ready_def say_def cong: option.case_cong)

lemma load_from_file_frame:
  "attr_config (load_from_file f a p) = attr_config p"
  "next_addr (load_from_file f a p) = next_addr p"
  "cls_instance (load_from_file f a p) = cls_instance p"
  "cls_initialized (load_from_file f a p) = cls_initialized p"
  by (simp_all add: load_from_file_def say_def split: config_file.splits option.splits)

lemma load_from_file_dom:
  "dicts p d = Some m \<Longrightarrow> \<exists>m'. dicts (load_from_file f a p) d = Some m'"
  by (simp add: load_from_file_def say_def split: config_file.splits option.splits)

text \<open>\<open>__init__\<close> leaves the class initialised and its instance with a dictionary.\<close>

lemma RestaurantConfig_init_ready:
  assumes "a < next_addr p" and "cls_instance p = Some a"
    and "cls_initialized p \<Longrightarrow> config_ready p"
  shows "config_ready (RestaurantConfig_init f a p) \<and>
         cls_initialized (RestaurantConfig_init f a p) \<and>
         cls_instance (RestaurantConfig_init f a p) = Some a"
proof (cases "cls_initialized p")
  case True
  with assms show ?thesis by (simp add: RestaurantConfig_init_def)
next
  case False
  define p2 where "p2 = (say Inicializando_configuracion p)
      \<lparr>attr_config := (attr_config (say Inicializando_configuracion p))(a \<mapsto> next_addr p),
       dicts := (dicts (say Inicializando_configuracion p))(next_addr p \<mapsto> default_config),
       next_addr := Suc (next_addr p)\<rparr>"
  have eq: "RestaurantConfig_init f a p = (load_from_file f a p2)\<lparr>cls_initialized := True\<rparr>"
    using False by (simp add: RestaurantConfig_init_def Let_def p2_def)
  have "dicts p2 (next_addr p) = Some default_config" by (simp add: p2_def)
  from load_from_file_dom [OF this, of f a]
  obtain m' where m': "dicts (load_from_file f a p2) (next_addr p) = Some m'" by blast
  have "attr_config p2 a = Some (next_addr p)" "next_addr p2 = Suc (next_addr p)"
       "cls_instance p2 = Some a"
    using assms by (simp_all add: p2_def say_def)
  with m' assms show ?thesis
    by (simp add: eq config_ready_def load_from_file_frame)
qed

lemma RestaurantConfig_ready:
  assumes "config_ready p" and "RestaurantConfig f p = (a, p1)"
  shows "config_ready p1 \<and> cls_initialized p1 \<and> cls_instance p1 = Some a"
proof (cases "cls_instance p")
  case None
  let ?q = "say Creando_nueva_instancia p
              \<lparr>cls_instance := Some (next_addr p), next_addr := Suc (next_addr p)\<rparr>"
  from None assms(2) have a: "a = next_addr p" and p1: "p1 = RestaurantConfig_init f a ?q"
    by (auto simp: RestaurantConfig_def RestaurantConfig_new_def Let_def)
  have "a < next_addr ?q" "cls_instance ?q = Some a" by (simp_all add: a say_def)
  moreover have "\<not> cls_initialized ?q"
    using assms(1) None by (simp add: config_ready_def say_def)
  ultimately show ?thesis using RestaurantConfig_init_ready [of a ?q f] by (simp add: p1)
next
  case (Some a')
  let ?q = "say Reutilizando_instancia p"
  from Some assms(2) have a: "a = a'" and p1: "p1 = RestaurantConfig_init f a ?q"
    by (auto simp: RestaurantConfig_def RestaurantConfig_new_def Let_def)
  have "a < next_addr ?q" "cls_instance ?q = Some a"
    using assms(1) Some by (simp_all add: a say_def config_ready_def)
  moreover have "config_ready ?q" using assms(1) by (simp add: config_ready_say)
  ultimately show ?thesis using RestaurantConfig_init_ready [of a ?q f] by (simp add: p1)
qed

text \<open>Once the class is initialised, \<open>RestaurantConfig()\<close> only prints.\<close>

lemma RestaurantConfig_again:
  assumes "cls_initialized p" and "cls_instance p = Some a"
  shows "RestaurantConfig f p = (a, say Reutilizando_instancia p)"
  using assms
  by (simp add: RestaurantConfig_def RestaurantConfig_new_def RestaurantConfig_init_def say_def)

lemma RestaurantConfig_initialized:
  "cls_initialized (snd (RestaurantConfig f p)) \<and>
   cls_instance (snd (RestaurantConfig f p)) = Some (fst (RestaurantConfig f p))"
  by (simp add: RestaurantConfig_def RestaurantConfig_new_def RestaurantConfig_init_def
      say_def Let_def load_from_file_frame split: option.splits)

lemma set_impuesto_frame:
  "cls_initialized (snd (set_impuesto a v p)) = cls_initialized p"
  "cls_instance (snd (set_impuesto a v p)) = cls_instance p"
  "attr_config (snd (set_impuesto a v p)) = attr_config p"
  by (simp_all add: set_impuesto_def say_def split: sum.splits bool.splits option.splits)

lemma config_ready_self_config:
  "config_ready p \<Longrightarrow> cls_initialized p \<Longrightarrow> cls_instance p = Some a
    \<Longrightarrow> \<exists>d m. self_config a p = Some (d, m) \<and> d < next_addr p"
  by (auto simp: config_ready_def self_config_def split: option.splits)

lemma set_impuesto_stores:
  assumes "self_config a p = Some (d, m)" and "num_value v = Some q" and "0 \<le> q" and "q \<le> 1"
  shows "fst (set_impuesto a v p) = None \<and> get_impuesto a (snd (set_impuesto a v p)) = Inr v"
  using assms
  by (auto simp: set_impuesto_def in_unit_interval_def say_def get_impuesto_def self_config_def
      split: option.splits)

text \<open>The first acquisition in a fresh process, with no configuration file.\<close>

lemma acquire0:
  "RestaurantConfig Absent process0 =
     (0, \<lparr> cls_instance = Some 0, cls_initialized = True, attr_config = [0 \<mapsto> 1],
            dicts = [1 \<mapsto> default_config], next_addr = 2,
            console = [Creando_nueva_instancia, Inicializando_configuracion] \<rparr>)"
  by (simp add: RestaurantConfig_def RestaurantConfig_new_def RestaurantConfig_init_def
      process0_def say_def load_from_file_def Let_def)

lemma default_impuesto: "default_config ''impuesto'' = Some (PFloat float_0_16)"
  by (simp add: default_config_def)

text \<open>
  C6. On a configuration holder whose dictionary is in place, \<open>set_impuesto(v)\<close> with
  a number \<open>v\<close> below 0 or above 1 raises nothing, prints the error line and leaves the
  dictionary, hence the tax rate read back, as it was; with \<open>0 \<le> v \<le> 1\<close> it stores
  \<open>v\<close> under the key \<open>impuesto\<close>, and \<open>get_impuesto\<close> returns it.
\<close>

theorem set_impuesto_validates:
  assumes "self_config a p = Some (d, m)" and "num_value v = Some q"
  shows "(q < 0 \<or> 1 < q \<longrightarrow>
            fst (set_impuesto a v p) = None \<and>
            dicts (snd (set_impuesto a v p)) = dicts p \<and>
            attr_config (snd (set_impuesto a v p)) = attr_config p \<and>
            get_impuesto a (snd (set_impuesto a v p)) = get_impuesto a p \<and>
            console (snd (set_impuesto a v p)) = console p @ [Error_impuesto]) \<and>
         (0 \<le> q \<and> q \<le> 1 \<longrightarrow>
            fst (set_impuesto a v p) = None \<and>
            dicts (snd (set_impuesto a v p)) = (dicts p)(d \<mapsto> m(''impuesto'' \<mapsto> v)) \<and>
            get_impuesto a (snd (set_impuesto a v p)) = Inr v)"
  using assms
  by (auto simp: set_impuesto_def in_unit_interval_def say_def get_impuesto_def self_config_def
      split: option.splits)

text \<open>
  The spec's example: after the defaults are in place, \<open>set_impuesto(1.5)\<close> leaves the
  rate at 0.16; \<open>set_impuesto(Decimal('0.08'))\<close> stores it.
\<close>

theorem set_impuesto_validates_witness:
  "self_config 0 (snd (RestaurantConfig Absent process0)) = Some (1, default_config) \<and>
   num_value (PFloat (3 / 2)) = Some (3 / 2) \<and> ((3 / 2 :: rat) < 0 \<or> 1 < (3 / 2 :: rat)) \<and>
   get_impuesto 0 (snd (set_impuesto 0 (PFloat (3 / 2)) (snd (RestaurantConfig Absent process0))))
     = Inr (PFloat float_0_16) \<and>
   num_value (PDecimal (8 / 100)) = Some (8 / 100) \<and> (0 :: rat) \<le> 8 / 100 \<and> (8 / 100 :: rat) \<le> 1 \<and>
   get_impuesto 0 (snd (set_impuesto 0 (PDecimal (8 / 100)) (snd (RestaurantConfig Absent process0))))
     = Inr (PDecimal (8 / 100))"
proof -
  let ?p = "snd (RestaurantConfig Absent process0)"
  have sc: "self_config 0 ?p = Some (1, default_config)"
    by (simp add: acquire0 self_config_def)
  have g0: "get_impuesto 0 ?p = Inr (PFloat float_0_16)"
    by (simp add: get_impuesto_def sc default_impuesto)
  have n1: "num_value (PFloat (3 / 2)) = Some (3 / 2)" by simp
  have n2: "num_value (PDecimal (8 / 100)) = Some (8 / 100)" by simp
  from set_impuesto_validates [OF sc n1] g0
  have r1: "get_impuesto 0 (snd (set_impuesto 0 (PFloat (3 / 2)) ?p)) = Inr (PFloat float_0_16)"
    by simp
  from set_impuesto_validates [OF sc n2]
  have r2: "get_impuesto 0 (snd (set_impuesto 0 (PDecimal (8 / 100)) ?p)) = Inr (PDecimal (8 / 100))"
    by simp
  from sc r1 r2 show ?thesis by simp
qed

text \<open>
  C7. From any state the class can be in, a second \<open>RestaurantConfig()\<close> returns the
  instance the first one returned and changes neither the instance's \<open>_config\<close> reference
  nor any dictionary, whatever the configuration file holds by then. A rate stored through
  one reference is read through the other, and a third acquisition made after the
  mutation still reads the stored rate: nothing is reinitialised.
\<close>

theorem singleton_shared_state:
  assumes ready: "config_ready p"
    and acq1: "RestaurantConfig f1 p = (a, p1)"
    and acq2: "RestaurantConfig f2 p1 = (b, p2)"
    and num: "num_value v = Some q" and lo: "0 \<le> q" and hi: "q \<le> 1"
    and acq3: "RestaurantConfig f3 (snd (set_impuesto a v p2)) = (c, p3)"
  shows "b = a \<and> c = a \<and>
         cls_instance p2 = Some a \<and>
         attr_config p2 = attr_config p1 \<and> dicts p2 = dicts p1 \<and>
         get_impuesto b p2 = get_impuesto a p1 \<and>
         get_impuesto b (snd (set_impuesto a v p2)) = Inr v \<and>
         get_impuesto a (snd (set_impuesto b v p2)) = Inr v \<and>
         get_impuesto c p3 = Inr v"
proof -
  from RestaurantConfig_ready [OF ready acq1]
  have r1: "config_ready p1" and i1: "cls_initialized p1" and s1: "cls_instance p1 = Some a"
    by simp_all
  from acq2 RestaurantConfig_again [OF i1 s1, of f2]
  have b: "b = a" and p2: "p2 = say Reutilizando_instancia p1" by auto
  have r2: "config_ready p2" and i2: "cls_initialized p2" and s2: "cls_instance p2 = Some a"
    using r1 i1 s1 by (simp_all add: p2 config_ready_say) (simp_all add: say_def)
  from config_ready_self_config [OF r2 i2 s2]
  obtain d m where dm: "self_config a p2 = Some (d, m)" by blast
  let ?q = "snd (set_impuesto a v p2)"
  have st: "get_impuesto a ?q = Inr v"
    using set_impuesto_stores [OF dm num lo hi] by simp
  have iq: "cls_initialized ?q" and sq: "cls_instance ?q = Some a"
    using i2 s2 by (simp_all add: set_impuesto_frame)
  from acq3 RestaurantConfig_again [OF iq sq, of f3]
  have c: "c = a" and p3: "p3 = say Reutilizando_instancia ?q" by auto
  have "get_impuesto c p3 = Inr v"
    by (simp add: c p3 get_impuesto_say st)
  moreover have "get_impuesto b p2 = get_impuesto a p1"
    by (simp add: b p2 get_impuesto_say)
  moreover have "attr_config p2 = attr_config p1" "dicts p2 = dicts p1"
    by (simp_all add: p2 say_def)
  ultimately show ?thesis using b c s2 st by simp
qed

text \<open>
  In a fresh process: two acquisitions, the second with a file that would set the rate
  to 0.5, give the same object 0; 0.08 stored through it is what a third one reads.
\<close>

theorem singleton_shared_state_witness:
  "config_ready process0 \<and>
   fst (RestaurantConfig Absent process0) = 0 \<and>
   fst (RestaurantConfig (Contents [''impuesto'' \<mapsto> PFloat (1 / 2)])
          (snd (RestaurantConfig Absent process0))) = 0 \<and>
   num_value (PDecimal (8 / 100)) = Some (8 / 100) \<and> (0 :: rat) \<le> 8 / 100 \<and> (8 / 100 :: rat) \<le> 1 \<and>
   get_impuesto
     (fst (RestaurantConfig Unreadable
        (snd (set_impuesto 0 (PDecimal (8 / 100))
           (snd (RestaurantConfig (Contents [''impuesto'' \<mapsto> PFloat (1 / 2)])
              (snd (RestaurantConfig Absent process0))))))))
     (snd (RestaurantConfig Unreadable
        (snd (set_impuesto 0 (PDecimal (8 / 100))
           (snd (RestaurantConfig (Contents [''impuesto'' \<mapsto> PFloat (1 / 2)])
              (snd (RestaurantConfig Absent process0))))))))
     = Inr (PDecimal (8 / 100))"
proof -
  let ?f2 = "Contents [''impuesto'' \<mapsto> PFloat (1 / 2)]"
  let ?r1 = "RestaurantConfig Absent process0"
  let ?r2 = "RestaurantConfig ?f2 (snd ?r1)"
  let ?r3 = "RestaurantConfig Unreadable (snd (set_impuesto 0 (PDecimal (8 / 100)) (snd ?r2)))"
  have h0: "config_ready process0" by (simp add: config_ready_def process0_def)
  have a: "fst ?r1 = 0" by (simp add: acquire0)
  have h1: "?r1 = (0, snd ?r1)" using a by (simp add: prod_eq_iff)
  have h2: "?r2 = (fst ?r2, snd ?r2)" by simp
  have h3: "?r3 = (fst ?r3, snd ?r3)" by simp
  have n: "num_value (PDecimal (8 / 100)) = Some (8 / 100)" by simp
  have lo: "(0 :: rat) \<le> 8 / 100" and hi: "(8 / 100 :: rat) \<le> 1" by simp_all
  note T = singleton_shared_state [OF h0 h1 h2 n lo hi h3]
  from T have e2: "fst ?r2 = 0" by blast
  from T have g: "get_impuesto (fst ?r3) (snd ?r3) = Inr (PDecimal (8 / 100))" by blast
  from h0 a e2 n lo hi g show ?thesis by blast
qed

lemma mutate_dict_other:
  "d \<noteq> r \<Longrightarrow> dicts (mutate_dict r op p) d = dicts p d"
  by (simp add: mutate_dict_def split: option.splits sum.splits)

lemma mutate_dict_attr: "attr_config (mutate_dict r op p) = attr_config p"
  by (simp add: mutate_dict_def split: option.splits sum.splits)

lemma mutate_dict_all_other:
  "d \<noteq> r \<Longrightarrow> dicts (mutate_dict_all r ops p) d = dicts p d"
  by (induction ops arbitrary: p) (simp_all add: mutate_dict_other)

lemma mutate_dict_all_attr: "attr_config (mutate_dict_all r ops p) = attr_config p"
  by (induction ops arbitrary: p) (simp_all add: mutate_dict_attr)

lemma self_config_cong:
  "attr_config p' = attr_config p \<Longrightarrow> self_config a p = Some (d, m) \<Longrightarrow> dicts p' d = dicts p d
    \<Longrightarrow> self_config a p' = Some (d, m)"
  by (auto simp: self_config_def split: option.splits)

text \<open>
  C9. On an initialised configuration holder, \<open>get_all_config\<close> returns a reference
  \<open>r\<close> to a dictionary other than the holder's own, with the same contents \<open>m\<close>, so every
  stored pair is in it. Whatever sequence of item assignments, deletions, \<open>clear\<close> and
  \<open>update\<close> is then applied through \<open>r\<close>, the holder's dictionary is still \<open>m\<close>.
\<close>

theorem get_all_config_is_copy:
  assumes "config_ready p" and "cls_initialized p" and "cls_instance p = Some a"
  shows "\<exists>d m r. self_config a p = Some (d, m) \<and>
           fst (get_all_config a p) = Inr r \<and> r \<noteq> d \<and>
           dicts (snd (get_all_config a p)) r = Some m \<and>
           (\<forall>ops. self_config a (mutate_dict_all r ops (snd (get_all_config a p))) = Some (d, m))"
proof -
  from assms obtain d m where dm: "self_config a p = Some (d, m)" and lt: "d < next_addr p"
    using config_ready_self_config by blast
  let ?r = "next_addr p"
  let ?p' = "p\<lparr>dicts := (dicts p)(?r \<mapsto> m), next_addr := Suc ?r\<rparr>"
  have g: "get_all_config a p = (Inr ?r, ?p')"
    using dm by (simp add: get_all_config_def Let_def)
  have ne: "d \<noteq> ?r" using lt by simp
  have sc: "self_config a ?p' = Some (d, m)"
    using dm ne by (auto simp: self_config_def split: option.splits)
  have "self_config a (mutate_dict_all ?r ops ?p') = Some (d, m)" for ops
    by (rule self_config_cong [OF mutate_dict_all_attr sc mutate_dict_all_other [OF ne]])
  with dm g ne show ?thesis by auto
qed

text \<open>
  With the defaults in place the copy is dictionary 2; after \<open>copy['impuesto'] = 0.99\<close>
  and \<open>copy.clear()\<close> on it the holder still reads 0.16.
\<close>

theorem get_all_config_is_copy_witness:
  "config_ready (snd (RestaurantConfig Absent process0)) \<and>
   cls_initialized (snd (RestaurantConfig Absent process0)) \<and>
   cls_instance (snd (RestaurantConfig Absent process0)) = Some 0 \<and>
   fst (get_all_config 0 (snd (RestaurantConfig Absent process0))) = Inr 2 \<and>
   get_impuesto 0
     (mutate_dict_all 2 [SetItem ''impuesto'' (PFloat (99 / 100)), Clear]
        (snd (get_all_config 0 (snd (RestaurantConfig Absent process0)))))
     = Inr (PFloat float_0_16)"
proof -
  let ?p = "snd (RestaurantConfig Absent process0)"
  let ?ops = "[SetItem ''impuesto'' (PFloat (99 / 100)), Clear]"
  have h1: "config_ready ?p" by (simp add: acquire0 config_ready_def)
  have h2: "cls_initialized ?p" by (simp add: acquire0)
  have h3: "cls_instance ?p = Some 0" by (simp add: acquire0)
  have sc: "self_config 0 ?p = Some (1, default_config)"
    by (simp add: acquire0 self_config_def)
  have g: "fst (get_all_config 0 ?p) = Inr 2"
    by (simp add: get_all_config_def sc Let_def) (simp add: acquire0)
  from get_all_config_is_copy [OF h1 h2 h3]
  obtain d m r where A: "self_config 0 ?p = Some (d, m)"
    and B: "fst (get_all_config 0 ?p) = Inr r"
    and C: "\<forall>ops. self_config 0 (mutate_dict_all r ops (snd (get_all_config 0 ?p))) = Some (d, m)"
    by blast
  from A sc have dm: "d = 1" "m = default_config" by simp_all
  from B g have r: "r = 2" by simp
  from C have "self_config 0 (mutate_dict_all r ?ops (snd (get_all_config 0 ?p))) = Some (d, m)"
    by blast
  then have "self_config 0 (mutate_dict_all 2 ?ops (snd (get_all_config 0 ?p)))
               = Some (1, default_config)"
    by (simp only: dm r)
  then have "get_impuesto 0 (mutate_dict_all 2 ?ops (snd (get_all_config 0 ?p)))
               = Inr (PFloat float_0_16)"
    by (simp only: get_impuesto_def default_impuesto option.case prod.case)
  with h1 h2 h3 g show ?thesis by blast
qed

section \<open>Properties of the notification fan-out\<close>

lemma PedidoSubject_distinct: "distinct (observadores (PedidoSubject ped))"
  by (simp add: PedidoSubject_def)

lemma agregar_observador_distinct:
  "distinct (observadores self) \<Longrightarrow> distinct (observadores (agregar_observador ob self))"
  by (simp add: agregar_observador_def)

lemma quitar_observador_distinct:
  "distinct (observadores self) \<Longrightarrow> distinct (observadores (quitar_observador ob self))"
  by (simp add: quitar_observador_def)




text \<open>
  An exception outside \<open>Exception\<close> is not caught: the loop stops at the observer that
  raised it, and the exception reaches the caller.
\<close>

lemma notificar_cada_not_caught:
  assumes "act ob ped ev d (world st) = (Some e, w')" and "\<not> is_Exception e"
  shows "notificar_cada act ped ev d (ob # obs) st
           = (Some e, st\<lparr>calls := calls st @ [(ob, ped, ev, d)], world := w'\<rparr>)"
  using assms by simp




text \<open>
  C10. \<open>quitar_observador\<close> with an observer that is not in the list returns the
  subject as it is. With one that is in the list, the list splits around its first
  occurrence, and the result is the part before followed by the part after: one entry
  less, the others in their order. The order of the subject is not touched.
\<close>

theorem quitar_observador_removes_one:
  "(ob \<notin> set (observadores self) \<longrightarrow> quitar_observador ob self = self) \<and>
   (ob \<in> set (observadores self) \<longrightarrow>
      (\<exists>ys zs. observadores self = ys @ ob # zs \<and> ob \<notin> set ys \<and>
               observadores (quitar_observador ob self) = ys @ zs) \<and>
      length (observadores (quitar_observador ob self)) + 1 = length (observadores self) \<and>
      subject_pedido (quitar_observador ob self) = subject_pedido self)"
proof (cases "ob \<in> set (observadores self)")
  case False
  then show ?thesis by (simp add: quitar_observador_def)
next
  case True
  then obtain ys zs where split: "observadores self = ys @ ob # zs" and first: "ob \<notin> set ys"
    by (meson split_list_first)
  have "remove1 ob (observadores self) = ys @ zs"
    using first by (simp add: split remove1_append)
  with True split first show ?thesis
    by (auto simp: quitar_observador_def)
qed

text \<open>
  With observers 1, 2, 3 registered: removing 4 changes nothing, removing 2 leaves 1, 3.
\<close>

theorem quitar_observador_removes_one_witness:
  "(let ped = \<lparr> pedido_id = 7, mesa = 1, mesero = None, estado = ''pendiente'',
                 notas_especiales = [], subtotal = PInt 0, impuesto = PInt 0,
                 total_pedido = PInt 0 \<rparr>;
        self = \<lparr> subject_pedido = ped, observadores = [1, 2, 3 :: nat] \<rparr>
    in 4 \<notin> set (observadores self) \<and> quitar_observador 4 self = self \<and>
       2 \<in> set (observadores self) \<and> observadores (quitar_observador 2 self) = [1, 3])"
proof -
  define self where "self = \<lparr> subject_pedido = \<lparr> pedido_id = 7, mesa = 1, mesero = None,
                 estado = ''pendiente'', notas_especiales = [], subtotal = PInt 0,
                 impuesto = PInt 0, total_pedido = PInt 0 \<rparr>, observadores = [1, 2, 3 :: nat] \<rparr>"
  have obs: "observadores self = [1, 2, 3]" by (simp add: self_def)
  have n4: "4 \<notin> set (observadores self)" and i2: "2 \<in> set (observadores self)"
    by (simp_all add: obs)
  from quitar_observador_removes_one [of 4 self] n4
  have a: "quitar_observador 4 self = self" by blast
  from quitar_observador_removes_one [of 2 self] i2
  obtain ys zs where s: "observadores self = ys @ 2 # zs" and f: "2 \<notin> set ys"
    and r: "observadores (quitar_observador 2 self) = ys @ zs"
    by blast
  from s f obs have "ys = [1] \<and> zs = [3]"
    by (cases ys; cases "tl ys") auto
  with r have b: "observadores (quitar_observador 2 self) = [1, 3]" by simp
  from n4 a i2 b show ?thesis
    unfolding Let_def self_def [symmetric] by blast
qed

section \<open>Properties of the quantity validation\<close>

text \<open>
  For a quantity other than 0 the method does what its message says: it rejects exactly
  the quantities below 1 and above 50.
\<close>

lemma clean_cantidad_nonzero:
  "c \<noteq> 0 \<Longrightarrow>
     clean_cantidad (Some c)
       = (if 1 \<le> c \<and> c \<le> 50 then Inr (Some c) else Inl ''La cantidad debe estar entre 1 y 50'')"
  by (auto simp: clean_cantidad_def)

text \<open>
  C8. The quantity 0 is outside the range 1 to 50, and \<open>clean_cantidad\<close> accepts it: the
  test \<open>cantidad and (...)\<close> is false for 0 before the range is looked at.
\<close>

theorem clean_cantidad_accepts_zero:
  "clean_cantidad (Some 0) = Inr (Some 0)"
  by (simp add: clean_cantidad_def)

section \<open>Properties of the status transition\<close>

lemma find_replace:
  "find (\<lambda>r. f r = k) xs \<noteq> None \<Longrightarrow> f new = k \<Longrightarrow>
     find (\<lambda>r. f r = k) (map (\<lambda>r. if f r = k then new else r) xs) = Some new"
  by (induction xs) auto

lemma find_snoc:
  "find P xs = None \<Longrightarrow> find P (xs @ [x]) = (if P x then Some x else None)"
  by (induction xs) (auto split: if_splits)

lemma get_pedido_id: "get_pedido db k = Some ped \<Longrightarrow> pedido_id ped = k"
  by (auto simp: get_pedido_def find_Some_iff)

text \<open>Reading back what \<open>save\<close> wrote.\<close>

lemma get_pedido_Pedido_save:
  "get_pedido (Pedido_save ped db) (pedido_id ped) = Some ped"
proof (cases "get_pedido db (pedido_id ped)")
  case None
  then show ?thesis
    by (simp add: Pedido_save_def get_pedido_def find_snoc)
next
  case (Some old)
  then have "find (\<lambda>r. pedido_id r = pedido_id ped) (pedidos db) \<noteq> None"
    by (simp add: get_pedido_def)
  from find_replace [OF this, of ped] Some show ?thesis
    by (simp add: Pedido_save_def get_pedido_def)
qed

lemma Pedido_save_frame:
  "items (Pedido_save ped db) = items db"
  "platillos (Pedido_save ped db) = platillos db"
  "next_item_id (Pedido_save ped db) = next_item_id db"
  by (simp_all add: Pedido_save_def)

text \<open>
  \<open>PedidoSubject.cambiar_estado\<close> tests nothing: whatever the string, and whatever the
  observers do, the order is saved with it.
\<close>

lemma cambiar_estado_persists:
  assumes "cambiar_estado act now self nuevo_estado username db st = (r, self', db', st')"
  shows "get_pedido db' (pedido_id (subject_pedido self))
           = Some ((subject_pedido self)\<lparr>estado := nuevo_estado\<rparr>) \<and>
         subject_pedido self' = (subject_pedido self)\<lparr>estado := nuevo_estado\<rparr>"
proof -
  let ?ped = "(subject_pedido self)\<lparr>estado := nuevo_estado\<rparr>"
  from assms have "db' = Pedido_save ?ped db"
    and "self' = self\<lparr>subject_pedido := ?ped\<rparr>"
    by (auto simp: cambiar_estado_def Let_def split: prod.splits)
  with get_pedido_Pedido_save [of ?ped db] show ?thesis by simp
qed

lemma map_of_ESTADOS:
  "(map_of ESTADOS t = None) = (t \<notin> set (map fst ESTADOS))"
  by (simp add: map_of_eq_None_iff)

text \<open>
  C5. A POST to \<open>cambiar_estado_pedido\<close> for an existing order, whatever its current
  status: if the target is one of the five keys of \<open>ESTADOS\<close>, the order is saved with the
  target as its status and nothing else changed; no other test is made. If the target is
  not one of them, nothing is saved, no observer is called, and the only effect is the
  message that the status is invalid.
\<close>

theorem cambiar_estado_pedido_any_transition:
  assumes "get_pedido (vs_db vs) pk = Some ped"
    and "req_method req = ''POST''"
    and "req_POST req ''estado'' = Some t"
  shows "(t \<in> set (map fst ESTADOS) \<longrightarrow>
            get_pedido (vs_db (snd (cambiar_estado_pedido act now req pk vs))) pk
              = Some (ped\<lparr>estado := t\<rparr>)) \<and>
         (t \<notin> set (map fst ESTADOS) \<longrightarrow>
            cambiar_estado_pedido act now req pk vs
              = (Inr (Redirect_detalle_pedido pk),
                 vs\<lparr>vs_messages := vs_messages vs @ [Estado_invalido]\<rparr>))"
proof (cases "map_of ESTADOS t")
  case None
  then have "t \<notin> set (map fst ESTADOS)" by (simp add: map_of_ESTADOS)
  with None assms show ?thesis by (simp add: cambiar_estado_pedido_def)
next
  case (Some label)
  then have mem: "t \<in> set (map fst ESTADOS)"
    using map_of_ESTADOS [of t] by simp
  let ?s3 = "agregar_observador AdministradorObserver
               (agregar_observador MeseroObserver
                  (agregar_observador CocinaObserver (PedidoSubject ped)))"
  have sp: "subject_pedido ?s3 = ped"
    by (simp add: agregar_observador_def PedidoSubject_def)
  obtain r s4 db' st' where
    ce: "cambiar_estado act now ?s3 t (Some (req_user req)) (vs_db vs) (vs_notif vs)
           = (r, s4, db', st')"
    by (metis prod_cases4)
  from cambiar_estado_persists [OF ce] sp get_pedido_id [OF assms(1)]
  have saved: "get_pedido db' pk = Some (ped\<lparr>estado := t\<rparr>)" by simp
  have "vs_db (snd (cambiar_estado_pedido act now req pk vs)) = db'"
    using assms Some ce by (simp add: cambiar_estado_pedido_def Let_def split: option.splits)
  with saved mem show ?thesis by simp
qed

text \<open>
  An order that is \<open>entregado\<close> goes back to \<open>pendiente\<close>; the target \<open>archivado\<close> is
  refused and the order stays as it is.
\<close>

theorem cambiar_estado_pedido_any_transition_witness:
  "(let ped = \<lparr> pedido_id = 7, mesa = 1, mesero = None, estado = ''entregado'',
                 notas_especiales = [], subtotal = PInt 0, impuesto = PInt 0,
                 total_pedido = PInt 0 \<rparr>;
        vs = \<lparr> vs_db = \<lparr> platillos = [], pedidos = [ped], items = [], next_item_id = 0 \<rparr>,
               vs_notif = \<lparr> calls = [], logged_errors = [], world = () \<rparr>,
               vs_messages = [] \<rparr>;
        act = (\<lambda>ob ped ev d w. (None, w));
        req1 = \<lparr> req_method = ''POST'', req_POST = [''estado'' \<mapsto> ''pendiente''],
                 req_user = ''mesero1'' \<rparr>;
        req2 = \<lparr> req_method = ''POST'', req_POST = [''estado'' \<mapsto> ''archivado''],
                 req_user = ''mesero1'' \<rparr>
    in get_pedido (vs_db vs) 7 = Some ped \<and>
       req_method req1 = ''POST'' \<and> req_POST req1 ''estado'' = Some ''pendiente'' \<and>
       ''pendiente'' \<in> set (map fst ESTADOS) \<and>
       get_pedido (vs_db (snd (cambiar_estado_pedido act 0 req1 7 vs))) 7
         = Some (ped\<lparr>estado := ''pendiente''\<rparr>) \<and>
       req_method req2 = ''POST'' \<and> req_POST req2 ''estado'' = Some ''archivado'' \<and>
       ''archivado'' \<notin> set (map fst ESTADOS) \<and>
       get_pedido (vs_db (snd (cambiar_estado_pedido act 0 req2 7 vs))) 7 = Some ped \<and>
       vs_messages (snd (cambiar_estado_pedido act 0 req2 7 vs)) = [Estado_invalido])"
proof -
  define ped where "ped = \<lparr> pedido_id = 7, mesa = 1, mesero = None, estado = ''entregado'',
                 notas_especiales = [], subtotal = PInt 0, impuesto = PInt 0,
                 total_pedido = PInt 0 \<rparr>"
  define vs :: "unit view_state" where
    "vs = \<lparr> vs_db = \<lparr> platillos = [], pedidos = [ped], items = [], next_item_id = 0 \<rparr>,
               vs_notif = \<lparr> calls = [], logged_errors = [], world = () \<rparr>,
               vs_messages = [] \<rparr>"
  define act :: "(observer, datos_cambio_estado, unit) actualizar"
    where "act = (\<lambda>ob ped ev d w. (None, w))"
  define req1 where "req1 = \<lparr> req_method = ''POST'', req_POST = [''estado'' \<mapsto> ''pendiente''],
                 req_user = ''mesero1'' \<rparr>"
  define req2 where "req2 = \<lparr> req_method = ''POST'', req_POST = [''estado'' \<mapsto> ''archivado''],
                 req_user = ''mesero1'' \<rparr>"
  have g: "get_pedido (vs_db vs) 7 = Some ped"
    by (simp add: vs_def get_pedido_def ped_def)
  have m1: "req_method req1 = ''POST''" and p1: "req_POST req1 ''estado'' = Some ''pendiente''"
    by (simp_all add: req1_def)
  have m2: "req_method req2 = ''POST''" and p2: "req_POST req2 ''estado'' = Some ''archivado''"
    by (simp_all add: req2_def)
  have in1: "''pendiente'' \<in> set (map fst ESTADOS)"
    and out2: "''archivado'' \<notin> set (map fst ESTADOS)"
    by (simp_all add: ESTADOS_def)
  from cambiar_estado_pedido_any_transition [OF g m1 p1, of act 0] in1
  have r1: "get_pedido (vs_db (snd (cambiar_estado_pedido act 0 req1 7 vs))) 7
              = Some (ped\<lparr>estado := ''pendiente''\<rparr>)"
    by blast
  from cambiar_estado_pedido_any_transition [OF g m2 p2, of act 0] out2
  have "cambiar_estado_pedido act 0 req2 7 vs
          = (Inr (Redirect_detalle_pedido 7), vs\<lparr>vs_messages := vs_messages vs @ [Estado_invalido]\<rparr>)"
    by blast
  then have r2: "get_pedido (vs_db (snd (cambiar_estado_pedido act 0 req2 7 vs))) 7 = Some ped"
    and r3: "vs_messages (snd (cambiar_estado_pedido act 0 req2 7 vs)) = [Estado_invalido]"
    using g by (simp_all add: vs_def)
  from g m1 p1 in1 r1 m2 p2 out2 r2 r3 show ?thesis
    unfolding Let_def ped_def [symmetric] vs_def [symmetric] act_def [symmetric]
      req1_def [symmetric] req2_def [symmetric]
    by blast
qed

end
